theory Spec2Isabelle
  imports Main
begin

section \<open>Trash change dashboard: change engine, point sampler, tabular exporter\<close>

text \<open>
  The development embeds the functions of \<^verbatim>\<open>app.py\<close> that carry the pipeline:
  \<^verbatim>\<open>compute_changes\<close>, \<^verbatim>\<open>mask_to_points\<close>, \<^verbatim>\<open>points_to_dataframe\<close> and the loop over
  the comparison pairs. Library calls of numpy, rasterio and pandas are modelled by what
  they compute on the values the program hands them.
\<close>

subsection \<open>Arrays\<close>

text \<open>
  A two-dimensional numpy array: its shape \<open>(nrows, ncols)\<close> and its rows. The shape is
  stored, since an array with no rows still has a column count. Pixel values are integers
  (a raster band of a signed or unsigned integer type); floating-point bands are outside
  the model.
\<close>

record 'a ndarray =
  nrows :: nat
  ncols :: nat
  cells :: "'a list list"

definition shape :: "'a ndarray \<Rightarrow> nat \<times> nat" where
  "shape m = (nrows m, ncols m)"

text \<open>Every array that numpy builds has as many rows and columns as its shape says.\<close>

definition wf_array :: "'a ndarray \<Rightarrow> bool" where
  "wf_array m = (length (cells m) = nrows m \<and> list_all (\<lambda>row. length row = ncols m) (cells m))"

text \<open>\<^verbatim>\<open>m[r, c]\<close>, for the indices inside the shape, which are the only ones the program uses.\<close>

definition px :: "'a ndarray \<Rightarrow> nat \<Rightarrow> nat \<Rightarrow> 'a" where
  "px m r c = cells m ! r ! c"

datatype py_error = ValueError | KeyError

subsection \<open>Change engine\<close>

text \<open>
  \<^verbatim>\<open>
  def compute_changes(a, b):
      return (a==0) & (b>0), (a>0) & (b==0)
  \<close>
  The comparisons with a scalar keep the shape. The operator \<^verbatim>\<open>&\<close> broadcasts its
  operands: along each axis the two lengths must be equal or one of them must be 1,
  otherwise numpy raises ValueError.
\<close>

definition np_eq0 :: "int ndarray \<Rightarrow> bool ndarray" where
  "np_eq0 a = \<lparr>nrows = nrows a, ncols = ncols a, cells = map (map (\<lambda>v. v = 0)) (cells a)\<rparr>"

definition np_gt0 :: "int ndarray \<Rightarrow> bool ndarray" where
  "np_gt0 a = \<lparr>nrows = nrows a, ncols = ncols a, cells = map (map (\<lambda>v. v > 0)) (cells a)\<rparr>"

definition broadcast_dim :: "nat \<Rightarrow> nat \<Rightarrow> py_error + nat" where
  "broadcast_dim m n =
     (if m = n then Inr m else if m = 1 then Inr n else if n = 1 then Inr m
      else Inl ValueError)"

definition bcast_px :: "'a ndarray \<Rightarrow> nat \<Rightarrow> nat \<Rightarrow> 'a" where
  "bcast_px x r c = px x (if nrows x = 1 then 0 else r) (if ncols x = 1 then 0 else c)"

definition np_and :: "bool ndarray \<Rightarrow> bool ndarray \<Rightarrow> py_error + bool ndarray" where
  "np_and x y =
     (case broadcast_dim (nrows x) (nrows y) of
        Inl e \<Rightarrow> Inl e
      | Inr R \<Rightarrow>
          (case broadcast_dim (ncols x) (ncols y) of
             Inl e \<Rightarrow> Inl e
           | Inr C \<Rightarrow>
               Inr \<lparr>nrows = R, ncols = C,
                    cells = map (\<lambda>r. map (\<lambda>c. bcast_px x r c \<and> bcast_px y r c) [0..<C])
                              [0..<R]\<rparr>))"

definition compute_changes ::
  "int ndarray \<Rightarrow> int ndarray \<Rightarrow> py_error + (bool ndarray \<times> bool ndarray)" where
  "compute_changes a b =
     (case np_and (np_eq0 a) (np_gt0 b) of
        Inl e \<Rightarrow> Inl e
      | Inr new_mask \<Rightarrow>
          (case np_and (np_gt0 a) (np_eq0 b) of
             Inl e \<Rightarrow> Inl e
           | Inr cleaned_mask \<Rightarrow> Inr (new_mask, cleaned_mask)))"

text \<open>
  The two classifications that the program does not surface, in the words of the
  specification: a pixel is present when its value is positive and absent when it is
  exactly zero.
\<close>

definition present :: "int \<Rightarrow> bool" where
  "present v = (v > 0)"

definition absent :: "int \<Rightarrow> bool" where
  "absent v = (v = 0)"

text \<open>
  Every pixel value is classified: it is exactly zero or it is positive. A negative value
  is neither; in a floating-point band, which the model leaves out, a value that is not a
  number is neither as well.
\<close>

definition zero_or_positive :: "int ndarray \<Rightarrow> bool" where
  "zero_or_positive a = list_all (list_all (\<lambda>v. absent v \<or> present v)) (cells a)"

definition exactly_one :: "bool list \<Rightarrow> bool" where
  "exactly_one bs = (length (filter (\<lambda>b. b) bs) = 1)"

text \<open>\<^verbatim>\<open>np.zeros((R, C))\<close>, for examples with large shapes.\<close>

definition zeros :: "nat \<Rightarrow> nat \<Rightarrow> int ndarray" where
  "zeros R C = \<lparr>nrows = R, ncols = C, cells = replicate R (replicate C 0)\<rparr>"

subsection \<open>Point sampler\<close>

text \<open>
  \<^verbatim>\<open>range(i, n, s)\<close> for a positive step: \<open>i, i + s, i + 2 s, ...\<close> below \<open>n\<close>.
  The callers below decide the cases of a zero or negative step before they get here.
\<close>

function py_range :: "nat \<Rightarrow> nat \<Rightarrow> nat \<Rightarrow> nat list" where
  "py_range i n s = (if s = 0 \<or> n \<le> i then [] else i # py_range (i + s) n s)"
  by pat_completeness auto
termination
  by (relation "measure (\<lambda>(i, n, s). n - i)") auto

declare py_range.simps [simp del]

text \<open>How a loop body ends: by \<^verbatim>\<open>return\<close>, or by falling through to the next iteration.\<close>

datatype ('r, 's) loop_exit = Return 'r | Next 's

text \<open>
  \<^verbatim>\<open>
  def mask_to_points(mask, transform, step=8, max_points=50000):
      rows, cols = mask.shape
      pts = []
      count = 0
      for r in range(0, rows, step):
          row_slice = mask[r, ::step]
          if not row_slice.any():
              continue
          for c in range(0, cols, step):
              if mask[r, c]:
                  x, y = xy(transform, r, c)  # lon, lat
                  pts.append((y, x))
                  count += 1
                  if count >= max_points:
                      return pts
      return pts
  \<close>
  \<^verbatim>\<open>xy\<close> is rasterio's pixel-to-coordinate function; it is a parameter of the model.
  The loop state is the pair \<open>(pts, count)\<close>.
\<close>

fun col_loop ::
  "('t \<Rightarrow> nat \<Rightarrow> nat \<Rightarrow> 'c \<times> 'c) \<Rightarrow> bool ndarray \<Rightarrow> 't \<Rightarrow> int \<Rightarrow> nat \<Rightarrow> nat list \<Rightarrow>
   ('c \<times> 'c) list \<times> int \<Rightarrow> (('c \<times> 'c) list, ('c \<times> 'c) list \<times> int) loop_exit" where
  "col_loop xy msk tr max_points r [] (pts, count) = Next (pts, count)"
| "col_loop xy msk tr max_points r (c # cs) (pts, count) =
     (if px msk r c then
        (case xy tr r c of
           (x, y) \<Rightarrow>
             (let pts' = pts @ [(y, x)]; count' = count + 1
              in if count' \<ge> max_points then Return pts'
                 else col_loop xy msk tr max_points r cs (pts', count')))
      else col_loop xy msk tr max_points r cs (pts, count))"

text \<open>\<^verbatim>\<open>mask[r, ::step]\<close> for a positive step.\<close>

definition row_slice :: "bool ndarray \<Rightarrow> nat \<Rightarrow> nat \<Rightarrow> bool list" where
  "row_slice msk r s = map (px msk r) (py_range 0 (ncols msk) s)"

definition any :: "bool list \<Rightarrow> bool" where
  "any bs = list_ex (\<lambda>b. b) bs"

fun row_loop ::
  "('t \<Rightarrow> nat \<Rightarrow> nat \<Rightarrow> 'c \<times> 'c) \<Rightarrow> bool ndarray \<Rightarrow> 't \<Rightarrow> nat \<Rightarrow> int \<Rightarrow> nat list \<Rightarrow>
   ('c \<times> 'c) list \<times> int \<Rightarrow> (('c \<times> 'c) list, ('c \<times> 'c) list \<times> int) loop_exit" where
  "row_loop xy msk tr s max_points [] st = Next st"
| "row_loop xy msk tr s max_points (r # rs) st =
     (if \<not> any (row_slice msk r s) then row_loop xy msk tr s max_points rs st
      else
        (case col_loop xy msk tr max_points r (py_range 0 (ncols msk) s) st of
           Return pts \<Rightarrow> Return pts
         | Next st' \<Rightarrow> row_loop xy msk tr s max_points rs st'))"

text \<open>
  \<^verbatim>\<open>range(0, rows, 0)\<close> raises ValueError before the first iteration; with a negative
  step the range is empty and the empty list is returned.
\<close>

definition mask_to_points ::
  "('t \<Rightarrow> nat \<Rightarrow> nat \<Rightarrow> 'c \<times> 'c) \<Rightarrow> bool ndarray \<Rightarrow> 't \<Rightarrow> int \<Rightarrow> int \<Rightarrow>
   py_error + ('c \<times> 'c) list" where
  "mask_to_points xy msk tr step max_points =
     (if step = 0 then Inl ValueError
      else if step < 0 then Inr []
      else
        (case row_loop xy msk tr (nat step) max_points
                (py_range 0 (nrows msk) (nat step)) ([], 0) of
           Return pts \<Rightarrow> Inr pts
         | Next (pts, count) \<Rightarrow> Inr pts))"

text \<open>The sampler without the test of the row slice, for comparison with the one above.\<close>

fun row_loop_nocheck ::
  "('t \<Rightarrow> nat \<Rightarrow> nat \<Rightarrow> 'c \<times> 'c) \<Rightarrow> bool ndarray \<Rightarrow> 't \<Rightarrow> nat \<Rightarrow> int \<Rightarrow> nat list \<Rightarrow>
   ('c \<times> 'c) list \<times> int \<Rightarrow> (('c \<times> 'c) list, ('c \<times> 'c) list \<times> int) loop_exit" where
  "row_loop_nocheck xy msk tr s max_points [] st = Next st"
| "row_loop_nocheck xy msk tr s max_points (r # rs) st =
     (case col_loop xy msk tr max_points r (py_range 0 (ncols msk) s) st of
        Return pts \<Rightarrow> Return pts
      | Next st' \<Rightarrow> row_loop_nocheck xy msk tr s max_points rs st')"

definition mask_to_points_nocheck ::
  "('t \<Rightarrow> nat \<Rightarrow> nat \<Rightarrow> 'c \<times> 'c) \<Rightarrow> bool ndarray \<Rightarrow> 't \<Rightarrow> int \<Rightarrow> int \<Rightarrow>
   py_error + ('c \<times> 'c) list" where
  "mask_to_points_nocheck xy msk tr step max_points =
     (if step = 0 then Inl ValueError
      else if step < 0 then Inr []
      else
        (case row_loop_nocheck xy msk tr (nat step) max_points
                (py_range 0 (nrows msk) (nat step)) ([], 0) of
           Return pts \<Rightarrow> Inr pts
         | Next (pts, count) \<Rightarrow> Inr pts))"

text \<open>
  The specification's view of the sampler: the true pixels whose row and column are both
  multiples of the step, in row-major order, each converted through the transform.
\<close>

definition strided_true_pixels :: "bool ndarray \<Rightarrow> nat \<Rightarrow> (nat \<times> nat) list" where
  "strided_true_pixels msk s =
     filter (\<lambda>(r, c). s dvd r \<and> s dvd c \<and> px msk r c)
       (List.product [0..<nrows msk] [0..<ncols msk])"

definition strided_true_count :: "bool ndarray \<Rightarrow> nat \<Rightarrow> nat" where
  "strided_true_count msk s = length (strided_true_pixels msk s)"

text \<open>
  Appending a list of points to the loop state under the cap: the loop returns as soon as
  the count reaches \<open>max_points\<close>, which happens after at least one point.
\<close>

definition emit_capped ::
  "int \<Rightarrow> 'p list \<times> int \<Rightarrow> 'p list \<Rightarrow> ('p list, 'p list \<times> int) loop_exit" where
  "emit_capped max_points st new =
     (case st of (pts, count) \<Rightarrow>
        (let need = nat (max 1 (max_points - count))
         in if need \<le> length new then Return (pts @ take need new)
            else Next (pts @ new, count + int (length new))))"

text \<open>The true pixels among the given rows and columns, in row-major order.\<close>

definition pixels_in :: "bool ndarray \<Rightarrow> nat list \<Rightarrow> nat list \<Rightarrow> (nat \<times> nat) list" where
  "pixels_in msk rs cs = filter (\<lambda>(r, c). px msk r c) (List.product rs cs)"

definition to_point :: "('t \<Rightarrow> nat \<Rightarrow> nat \<Rightarrow> 'c \<times> 'c) \<Rightarrow> 't \<Rightarrow> nat \<times> nat \<Rightarrow> 'c \<times> 'c" where
  "to_point xy tr p = (case xy tr (fst p) (snd p) of (x, y) \<Rightarrow> (y, x))"

definition rowmajor_less :: "nat \<times> nat \<Rightarrow> nat \<times> nat \<Rightarrow> bool" where
  "rowmajor_less p q = (fst p < fst q \<or> (fst p = fst q \<and> snd p < snd q))"

definition all_false :: "bool ndarray \<Rightarrow> bool" where
  "all_false msk =
     list_all (\<lambda>r. list_all (\<lambda>c. \<not> px msk r c) [0..<ncols msk]) [0..<nrows msk]"

subsection \<open>Tabular exporter\<close>

text \<open>
  \<^verbatim>\<open>
  def points_to_dataframe(points):
      if not points:
          return pd.DataFrame(columns=["latitude","longitude"])
      lat, lon = zip(*points)
      return pd.DataFrame({"latitude": lat, "longitude": lon})
  \<close>
  A data frame is its columns in order, each a name with its values.
\<close>

type_synonym 'c dataframe = "(string \<times> 'c list) list"

definition points_to_dataframe :: "('c \<times> 'c) list \<Rightarrow> 'c dataframe" where
  "points_to_dataframe points =
     (if points = [] then [(''latitude'', []), (''longitude'', [])]
      else
        (case (map fst points, map snd points) of
           (lat, lon) \<Rightarrow> [(''latitude'', lat), (''longitude'', lon)]))"

definition df_columns :: "'c dataframe \<Rightarrow> string list" where
  "df_columns df = map fst df"

definition df_nrows :: "'c dataframe \<Rightarrow> nat" where
  "df_nrows df = (case df of [] \<Rightarrow> 0 | (name, vs) # rest \<Rightarrow> length vs)"

text \<open>
  Modelled from the spec: the serialisation \<^verbatim>\<open>df.to_csv(index=False)\<close> is pandas code
  and not part of the repository's sources. The specification asks for delimited text
  with the header row of the column names, followed by one line per row of the table, in
  the table's order. \<open>join_comma\<close>, \<open>csv_lines\<close> and \<open>to_csv\<close> below are this
  model; the formatting of a coordinate value is the parameter \<open>fmt\<close>.
\<close>

fun join_comma :: "string list \<Rightarrow> string" where
  "join_comma [] = []"
| "join_comma [x] = x"
| "join_comma (x # y # ys) = x @ '','' @ join_comma (y # ys)"

text \<open>
  Modelled from the spec: the header row of the column names, then the rows of the table
  in order (the lines that pandas' \<^verbatim>\<open>to_csv\<close>, absent from the sources, writes).
\<close>

definition csv_lines :: "('c \<Rightarrow> string) \<Rightarrow> 'c dataframe \<Rightarrow> string list" where
  "csv_lines fmt df =
     join_comma (df_columns df)
     # map (\<lambda>i. join_comma (map (\<lambda>(name, vs). fmt (vs ! i)) df)) [0..<df_nrows df]"

text \<open>
  Modelled from the spec: the serialisation \<^verbatim>\<open>df.to_csv(index=False)\<close> of pandas,
  absent from the sources, as the lines above, each ended by a newline.
\<close>

definition to_csv :: "('c \<Rightarrow> string) \<Rightarrow> 'c dataframe \<Rightarrow> string" where
  "to_csv fmt df = concat (map (\<lambda>line. line @ [CHR 0x0A]) (csv_lines fmt df))"

subsection \<open>The loop over the comparison pairs\<close>

text \<open>
  \<^verbatim>\<open>
  for title, a_key, b_key in pairs:
      a = loaded[a_key]["arr"]
      b = loaded[b_key]["arr"]
      t = loaded[b_key]["transform"]  # use newer transform
      if a.shape != b.shape:
          st.error(f"Shape mismatch for {title}: {a.shape} vs {b.shape}. ...")
          continue
      new_mask, cleaned_mask = compute_changes(a, b)
      ... show_mask_image(new_mask, ...) ... show_mask_image(cleaned_mask, ...)
      step = st.slider(...); max_pts = st.number_input(...); which = st.radio(...)
      use_mask = new_mask if which=="NEW" else cleaned_mask
      color = "red" if which=="NEW" else "green"
      pts = mask_to_points(use_mask, t, step=step, max_points=int(max_pts))
      ... folium markers for pts ...
      df = points_to_dataframe(pts)
      csv_bytes = df.to_csv(index=False).encode("utf-8")
      st.download_button(..., data=csv_bytes, file_name=..., mime="text/csv")
  \<close>
  What the script puts on the page is a list of events, in order. The values read from
  the widgets of a pair are a parameter \<open>ui\<close>, a function of the pair's title. An
  exception that nothing catches ends the script: the run returns the events so far and
  the exception. An event keeps the data of its call: the error keeps the title and both
  shapes of its message, the map keeps the bounds (from which the centre is computed) with
  the points and the colour, the download keeps the data, the file name and the MIME
  type. Decorations of labels are left out.
\<close>

record ('t, 'b) entry =
  arr :: "int ndarray"
  transform :: 't
  bounds :: 'b
  name :: string

datatype layer = NEW | CLEANED

record widgets =
  ui_step :: int
  ui_max_pts :: int
  ui_which :: layer

datatype ('b, 'c) event =
    StError string "nat \<times> nat" "nat \<times> nat"
  | ShowMaskImage "bool ndarray" string string
  | Subheader string
  | MapMarkers 'b "('c \<times> 'c) list" string
  | DownloadButton string string string

definition arrow :: string where
  "arrow = [CHR 0xE2, CHR 0x86, CHR 0x92]"

definition pairs_of :: "(string \<rightharpoonup> ('t, 'b) entry) \<Rightarrow> (string \<times> string \<times> string) list" where
  "pairs_of loaded =
     (if loaded ''5y'' \<noteq> None \<and> loaded ''2y'' \<noteq> None
      then [(''5y '' @ arrow @ '' 2y'', ''5y'', ''2y'')] else [])
     @ (if loaded ''2y'' \<noteq> None \<and> loaded ''3m'' \<noteq> None
        then [(''2y '' @ arrow @ '' 3m'', ''2y'', ''3m'')] else [])"

definition layer_name :: "layer \<Rightarrow> string" where
  "layer_name w = (case w of NEW \<Rightarrow> ''new'' | CLEANED \<Rightarrow> ''cleaned'')"

definition file_name :: "layer \<Rightarrow> string \<Rightarrow> string" where
  "file_name w title =
     layer_name w @ ''_'' @ map (\<lambda>ch. if ch = CHR '' '' then CHR ''_'' else ch) title
     @ ''_points.csv''"

definition show_pair ::
  "('c \<Rightarrow> string) \<Rightarrow> ('t \<Rightarrow> nat \<Rightarrow> nat \<Rightarrow> 'c \<times> 'c) \<Rightarrow> widgets \<Rightarrow> string \<Rightarrow>
   't \<Rightarrow> 'b \<Rightarrow> bool ndarray \<Rightarrow> bool ndarray \<Rightarrow> ('b, 'c) event list \<times> py_error option" where
  "show_pair fmt xy w title t b new_mask cleaned_mask =
     (let images = [ShowMaskImage new_mask (''NEW Trash ('' @ title @ '')'') ''gray'',
                    ShowMaskImage cleaned_mask (''CLEANED ('' @ title @ '')'') ''gray'',
                    Subheader title];
          which = ui_which w;
          use_mask = (if which = NEW then new_mask else cleaned_mask);
          color = (if which = NEW then ''red'' else ''green'')
      in case mask_to_points xy use_mask t (ui_step w) (ui_max_pts w) of
           Inl e \<Rightarrow> (images, Some e)
         | Inr pts \<Rightarrow>
             (images @ [MapMarkers b pts color,
                        DownloadButton (to_csv fmt (points_to_dataframe pts))
                          (file_name which title) ''text/csv''],
              None))"

text \<open>One iteration: the events it adds to the page, and the exception that ends the
  script, if there is one.\<close>

definition process_pair ::
  "('c \<Rightarrow> string) \<Rightarrow> ('t \<Rightarrow> nat \<Rightarrow> nat \<Rightarrow> 'c \<times> 'c) \<Rightarrow> (string \<Rightarrow> widgets) \<Rightarrow>
   (string \<rightharpoonup> ('t, 'b) entry) \<Rightarrow> string \<times> string \<times> string \<Rightarrow>
   ('b, 'c) event list \<times> py_error option" where
  "process_pair fmt xy ui loaded p =
     (case p of (title, a_key, b_key) \<Rightarrow>
        (case loaded a_key of
           None \<Rightarrow> ([], Some KeyError)
         | Some ea \<Rightarrow>
             (case loaded b_key of
                None \<Rightarrow> ([], Some KeyError)
              | Some eb \<Rightarrow>
                  if shape (arr ea) \<noteq> shape (arr eb)
                  then ([StError title (shape (arr ea)) (shape (arr eb))], None)
                  else
                    (case compute_changes (arr ea) (arr eb) of
                       Inl e \<Rightarrow> ([], Some e)
                     | Inr (new_mask, cleaned_mask) \<Rightarrow>
                         show_pair fmt xy (ui title) title (transform eb) (bounds eb)
                           new_mask cleaned_mask))))"

fun run_pairs ::
  "('c \<Rightarrow> string) \<Rightarrow> ('t \<Rightarrow> nat \<Rightarrow> nat \<Rightarrow> 'c \<times> 'c) \<Rightarrow> (string \<Rightarrow> widgets) \<Rightarrow>
   (string \<rightharpoonup> ('t, 'b) entry) \<Rightarrow> (string \<times> string \<times> string) list \<Rightarrow>
   ('b, 'c) event list \<Rightarrow> ('b, 'c) event list \<times> py_error option" where
  "run_pairs fmt xy ui loaded [] page = (page, None)"
| "run_pairs fmt xy ui loaded (p # rest) page =
     (case process_pair fmt xy ui loaded p of
        (events, Some e) \<Rightarrow> (page @ events, Some e)
      | (events, None) \<Rightarrow> run_pairs fmt xy ui loaded rest (page @ events))"

text \<open>
  Two sets of loaded masks for the examples: the specification's masks of shapes
  \<open>(100, 100)\<close> and \<open>(100, 101)\<close>, and a small session in which the first pair
  differs in shape and the second pair agrees.
\<close>

definition ex_loaded :: "string \<rightharpoonup> (unit, unit) entry" where
  "ex_loaded =
     [''5y'' \<mapsto> \<lparr>arr = zeros 100 100, transform = (), bounds = (), name = ''a.tif''\<rparr>,
      ''2y'' \<mapsto> \<lparr>arr = zeros 100 101, transform = (), bounds = (), name = ''b.tif''\<rparr>,
      ''3m'' \<mapsto> \<lparr>arr = zeros 100 101, transform = (), bounds = (), name = ''c.tif''\<rparr>]"

definition ex_small :: "string \<rightharpoonup> (unit, unit) entry" where
  "ex_small =
     [''5y'' \<mapsto> \<lparr>arr = \<lparr>nrows = 2, ncols = 2, cells = [[0, 1], [0, 0]]\<rparr>,
                 transform = (), bounds = (), name = ''a.tif''\<rparr>,
      ''2y'' \<mapsto> \<lparr>arr = \<lparr>nrows = 2, ncols = 3, cells = [[0, 0, 0], [0, 0, 0]]\<rparr>,
                 transform = (), bounds = (), name = ''b.tif''\<rparr>,
      ''3m'' \<mapsto> \<lparr>arr = \<lparr>nrows = 2, ncols = 3, cells = [[1, 0, 1], [0, 1, 0]]\<rparr>,
                 transform = (), bounds = (), name = ''c.tif''\<rparr>]"

section \<open>Properties\<close>

subsection \<open>Change engine\<close>

lemma wf_array_row: "wf_array m \<Longrightarrow> r < nrows m \<Longrightarrow> length (cells m ! r) = ncols m"
  by (simp add: wf_array_def list_all_length)

lemma px_np_eq0: "wf_array a \<Longrightarrow> r < nrows a \<Longrightarrow> c < ncols a \<Longrightarrow> px (np_eq0 a) r c = (px a r c = 0)"
  by (simp add: px_def np_eq0_def wf_array_def list_all_length)

lemma px_np_gt0: "wf_array a \<Longrightarrow> r < nrows a \<Longrightarrow> c < ncols a \<Longrightarrow> px (np_gt0 a) r c = (px a r c > 0)"
  by (simp add: px_def np_gt0_def wf_array_def list_all_length)

lemma bcast_px_inside: "r < nrows x \<Longrightarrow> c < ncols x \<Longrightarrow> bcast_px x r c = px x r c"
  by (auto simp: bcast_px_def)

lemma np_and_same_shape:
  "nrows x = nrows y \<Longrightarrow> ncols x = ncols y \<Longrightarrow>
   np_and x y = Inr \<lparr>nrows = nrows x, ncols = ncols x,
     cells = map (\<lambda>r. map (\<lambda>c. bcast_px x r c \<and> bcast_px y r c) [0..<ncols x]) [0..<nrows x]\<rparr>"
  by (simp add: np_and_def broadcast_dim_def)

lemma px_table: "r < R \<Longrightarrow> c < C \<Longrightarrow>
  px \<lparr>nrows = R, ncols = C, cells = map (\<lambda>r. map (f r) [0..<C]) [0..<R]\<rparr> r c = f r c"
  by (simp add: px_def)

lemma wf_table: "wf_array \<lparr>nrows = R, ncols = C, cells = map (\<lambda>r. map (f r) [0..<C]) [0..<R]\<rparr>"
  by (simp add: wf_array_def list_all_length)

lemma compute_changes_equal_shape:
  assumes "wf_array a" "wf_array b" "shape a = shape b"
  shows "\<exists>n cl. compute_changes a b = Inr (n, cl)
           \<and> shape n = shape a \<and> shape cl = shape a \<and> wf_array n \<and> wf_array cl
           \<and> (\<forall>r<nrows a. \<forall>c<ncols a.
                 px n r c = (px a r c = 0 \<and> px b r c > 0)
               \<and> px cl r c = (px a r c > 0 \<and> px b r c = 0))"
proof -
  from assms(3) have eq: "nrows b = nrows a" "ncols b = ncols a"
    by (simp_all add: shape_def)
  have sh: "nrows (np_eq0 a) = nrows a" "ncols (np_eq0 a) = ncols a"
    "nrows (np_gt0 a) = nrows a" "ncols (np_gt0 a) = ncols a"
    "nrows (np_eq0 b) = nrows a" "ncols (np_eq0 b) = ncols a"
    "nrows (np_gt0 b) = nrows a" "ncols (np_gt0 b) = ncols a"
    by (simp_all add: np_eq0_def np_gt0_def eq)
  let ?n = "\<lparr>nrows = nrows a, ncols = ncols a,
     cells = map (\<lambda>r. map (\<lambda>c. bcast_px (np_eq0 a) r c \<and> bcast_px (np_gt0 b) r c) [0..<ncols a]) [0..<nrows a]\<rparr>"
  let ?cl = "\<lparr>nrows = nrows a, ncols = ncols a,
     cells = map (\<lambda>r. map (\<lambda>c. bcast_px (np_gt0 a) r c \<and> bcast_px (np_eq0 b) r c) [0..<ncols a]) [0..<nrows a]\<rparr>"
  have n: "np_and (np_eq0 a) (np_gt0 b) = Inr ?n"
    using np_and_same_shape [of "np_eq0 a" "np_gt0 b"] by (simp add: sh)
  have cl: "np_and (np_gt0 a) (np_eq0 b) = Inr ?cl"
    using np_and_same_shape [of "np_gt0 a" "np_eq0 b"] by (simp add: sh)
  have cc: "compute_changes a b = Inr (?n, ?cl)"
    by (simp add: compute_changes_def n cl)
  have pxs: "px ?n r c = (px a r c = 0 \<and> px b r c > 0)
           \<and> px ?cl r c = (px a r c > 0 \<and> px b r c = 0)"
    if "r < nrows a" "c < ncols a" for r c
    using that assms(1,2)
    by (simp add: px_table bcast_px_inside sh px_np_eq0 px_np_gt0 eq)
  show ?thesis
    using cc pxs by (intro exI [of _ ?n] exI [of _ ?cl]) (simp add: shape_def wf_table)
qed

lemma px_zero_or_positive:
  "wf_array a \<Longrightarrow> zero_or_positive a \<Longrightarrow> r < nrows a \<Longrightarrow> c < ncols a \<Longrightarrow>
   absent (px a r c) \<or> present (px a r c)"
  by (simp add: px_def zero_or_positive_def wf_array_def list_all_length)

subsection \<open>Point sampler\<close>

lemma need_after:
  assumes "\<not> nat (max 1 d) \<le> k"
  shows "nat (max 1 (d - int k)) = nat (max 1 d) - k"
proof (cases "1 \<le> d")
  case True
  with assms have "int k < d" by (simp add: max_def)
  with True show ?thesis by (simp add: max_def)
next
  case False
  with assms have "k = 0" by (simp add: max_def)
  with False show ?thesis by (simp add: max_def)
qed

lemma emit_capped_Nil: "emit_capped mp st [] = Next st"
  by (cases st) (simp add: emit_capped_def)

lemma emit_capped_single:
  "emit_capped mp (pts, count) [p] =
     (if count + 1 \<ge> mp then Return (pts @ [p]) else Next (pts @ [p], count + 1))"
  by (auto simp: emit_capped_def Let_def)

lemma emit_capped_append:
  "emit_capped mp st (xs @ ys) =
     (case emit_capped mp st xs of Return p \<Rightarrow> Return p | Next st' \<Rightarrow> emit_capped mp st' ys)"
proof (cases st)
  case (Pair pts count)
  define need where "need = nat (max 1 (mp - count))"
  show ?thesis
  proof (cases "need \<le> length xs")
    case True
    then show ?thesis
      by (simp add: Pair emit_capped_def Let_def need_def [symmetric])
  next
    case False
    then have "nat (max 1 (mp - (count + int (length xs)))) = need - length xs"
      unfolding need_def using need_after [of "mp - count" "length xs"]
      by (simp add: algebra_simps)
    with False show ?thesis
      by (auto simp: Pair emit_capped_def Let_def need_def [symmetric])
  qed
qed

lemma col_loop_emit:
  "col_loop xy msk t mp r cs st =
     emit_capped mp st (map (to_point xy t) (pixels_in msk [r] cs))"
proof (induction cs arbitrary: st)
  case Nil
  show ?case by (cases st) (simp add: pixels_in_def emit_capped_Nil)
next
  case (Cons c cs)
  obtain pts count where st: "st = (pts, count)" by (cases st)
  show ?case
  proof (cases "px msk r c")
    case False
    then show ?thesis using Cons.IH [of st] by (simp add: st pixels_in_def)
  next
    case True
    obtain x y where xy: "xy t r c = (x, y)" by (cases "xy t r c")
    have split: "map (to_point xy t) (pixels_in msk [r] (c # cs))
                 = [(y, x)] @ map (to_point xy t) (pixels_in msk [r] cs)"
      using True by (simp add: pixels_in_def to_point_def xy)
    show ?thesis
      unfolding split emit_capped_append
      using True Cons.IH [of "(pts @ [(y, x)], count + 1)"]
      by (simp add: st xy emit_capped_single Let_def)
  qed
qed

lemma pixels_in_Cons: "pixels_in msk (r # rs) cs = pixels_in msk [r] cs @ pixels_in msk rs cs"
  by (simp add: pixels_in_def)

lemma any_row_slice: "any (row_slice msk r s) = (pixels_in msk [r] (py_range 0 (ncols msk) s) \<noteq> [])"
  by (auto simp: any_def row_slice_def pixels_in_def list_ex_iff filter_empty_conv)

lemma row_loop_nocheck_emit:
  "row_loop_nocheck xy msk t s mp rs st =
     emit_capped mp st (map (to_point xy t) (pixels_in msk rs (py_range 0 (ncols msk) s)))"
proof (induction rs arbitrary: st)
  case Nil
  show ?case by (simp add: pixels_in_def emit_capped_Nil)
next
  case (Cons r rs)
  show ?case
    by (simp add: pixels_in_Cons [of msk r rs] emit_capped_append col_loop_emit Cons.IH
        split: loop_exit.splits)
qed

lemma row_loop_nocheck: "row_loop xy msk t s mp rs st = row_loop_nocheck xy msk t s mp rs st"
proof (induction rs arbitrary: st)
  case Nil
  show ?case by simp
next
  case (Cons r rs)
  show ?case
    by (simp add: Cons.IH any_row_slice col_loop_emit emit_capped_Nil split: loop_exit.splits)
qed

lemma py_range_filter_from:
  "0 < s \<Longrightarrow> s dvd i \<Longrightarrow> py_range i n s = filter (\<lambda>j. s dvd j) [i..<n]"
proof (induction i n s rule: py_range.induct)
  case (1 i n s)
  show ?case
  proof (cases "n \<le> i")
    case True
    then show ?thesis by (simp add: py_range.simps)
  next
    case False
    have nodiv: "\<not> s dvd j" if "i < j" "j < i + s" for j
    proof
      assume "s dvd j"
      with \<open>s dvd i\<close> have "s dvd (j - i)" by (simp add: dvd_diff_nat)
      moreover have "0 < j - i" "j - i < s" using that by simp_all
      ultimately show False by (auto dest: dvd_imp_le)
    qed
    have "[Suc i..<n] = [Suc i..<min (i + s) n] @ [min (i + s) n..<n]"
      using False "1.prems"(1)
        upt_add_eq_append [of "Suc i" "min (i + s) n" "n - min (i + s) n"] by simp
    hence "filter (\<lambda>j. s dvd j) [Suc i..<n] = filter (\<lambda>j. s dvd j) [min (i + s) n..<n]"
      using nodiv by (auto simp: filter_empty_conv)
    also have "[min (i + s) n..<n] = [i + s..<n]"
      by (cases "i + s \<le> n") (simp_all add: min_def)
    finally have rest: "filter (\<lambda>j. s dvd j) [Suc i..<n] = filter (\<lambda>j. s dvd j) [i + s..<n]" .
    have "py_range i n s = i # py_range (i + s) n s"
      using False "1.prems"(1) by (subst py_range.simps) simp
    also have "py_range (i + s) n s = filter (\<lambda>j. s dvd j) [i + s..<n]"
      using False "1.prems" by (intro "1.IH") auto
    finally show ?thesis
      using False "1.prems"(2) rest by (simp add: upt_conv_Cons)
  qed
qed

lemma py_range_filter: "0 < s \<Longrightarrow> py_range 0 n s = filter (\<lambda>j. s dvd j) [0..<n]"
  by (rule py_range_filter_from) simp_all

lemma filter_product:
  "filter (\<lambda>(r, c). P r \<and> Q c \<and> R r c) (List.product xs ys)
   = filter (\<lambda>(r, c). R r c) (List.product (filter P xs) (filter Q ys))"
  by (induction xs) (auto simp: filter_map comp_def intro: filter_cong)

lemma strided_true_pixels_range:
  "0 < s \<Longrightarrow> strided_true_pixels msk s
     = pixels_in msk (py_range 0 (nrows msk) s) (py_range 0 (ncols msk) s)"
  by (simp add: strided_true_pixels_def pixels_in_def py_range_filter filter_product)

lemma exit_points_emit:
  "(case emit_capped mp ([], 0) new of Return pts \<Rightarrow> Inr pts | Next (pts, count) \<Rightarrow> Inr pts)
   = (Inr (take (nat (max 1 mp)) new) :: py_error + 'p list)"
  by (simp add: emit_capped_def Let_def)

lemma mask_to_points_nocheck_eq:
  "0 < step \<Longrightarrow> mask_to_points_nocheck xy msk t step mp
     = Inr (map (to_point xy t) (take (nat (max 1 mp)) (strided_true_pixels msk (nat step))))"
  by (simp add: mask_to_points_nocheck_def row_loop_nocheck_emit exit_points_emit
      strided_true_pixels_range take_map)

lemma mask_to_points_eq:
  "0 < step \<Longrightarrow> mask_to_points xy msk t step mp
     = Inr (map (to_point xy t) (take (nat (max 1 mp)) (strided_true_pixels msk (nat step))))"
  by (simp add: mask_to_points_def row_loop_nocheck row_loop_nocheck_emit exit_points_emit
      strided_true_pixels_range take_map)

lemma all_false_table:
  "(\<And>r c. r < R \<Longrightarrow> c < C \<Longrightarrow> \<not> f r c) \<Longrightarrow>
   all_false \<lparr>nrows = R, ncols = C, cells = map (\<lambda>r. map (f r) [0..<C]) [0..<R]\<rparr>"
  by (simp add: all_false_def list_all_iff px_def)

lemma compute_changes_conjunction:
  assumes "wf_array a" "wf_array b" "shape a = shape b"
  shows "\<exists>n cl z. compute_changes a b = Inr (n, cl) \<and> np_and n cl = Inr z
           \<and> shape z = shape a \<and> all_false z"
proof -
  from compute_changes_equal_shape [OF assms]
  obtain n cl where cc: "compute_changes a b = Inr (n, cl)"
    and sh: "shape n = shape a" "shape cl = shape a"
    and pxs: "\<forall>r<nrows a. \<forall>c<ncols a.
                 px n r c = (px a r c = 0 \<and> px b r c > 0)
               \<and> px cl r c = (px a r c > 0 \<and> px b r c = 0)"
    by blast
  from sh have dims: "nrows n = nrows a" "ncols n = ncols a" "nrows cl = nrows a" "ncols cl = ncols a"
    by (simp_all add: shape_def)
  let ?z = "\<lparr>nrows = nrows a, ncols = ncols a,
     cells = map (\<lambda>r. map (\<lambda>c. bcast_px n r c \<and> bcast_px cl r c) [0..<ncols a]) [0..<nrows a]\<rparr>"
  have z: "np_and n cl = Inr ?z"
    using np_and_same_shape [of n cl] by (simp add: dims)
  have "all_false ?z"
    by (rule all_false_table) (use pxs in \<open>simp add: bcast_px_inside dims\<close>)
  with cc z show ?thesis by (simp add: shape_def)
qed

lemma exactly_one_four:
  "exactly_one [a, b, c, d] =
     ((a \<and> \<not> b \<and> \<not> c \<and> \<not> d) \<or> (\<not> a \<and> b \<and> \<not> c \<and> \<not> d)
      \<or> (\<not> a \<and> \<not> b \<and> c \<and> \<not> d) \<or> (\<not> a \<and> \<not> b \<and> \<not> c \<and> d))"
  by (auto simp: exactly_one_def)

lemma sorted_product:
  "sorted_wrt (<) xs \<Longrightarrow> sorted_wrt (<) ys \<Longrightarrow> sorted_wrt rowmajor_less (List.product xs ys)"
proof (induction xs)
  case Nil
  show ?case by simp
next
  case (Cons x xs)
  have row: "sorted_wrt rowmajor_less (map (Pair x) ys)"
    using Cons.prems(2) by (simp add: sorted_wrt_map rowmajor_less_def)
  have later: "\<forall>p\<in>set (map (Pair x) ys). \<forall>q\<in>set (List.product xs ys). rowmajor_less p q"
    using Cons.prems(1) by (auto simp: rowmajor_less_def)
  from Cons row later show ?case
    by (simp add: sorted_wrt_append)
qed

lemma sorted_strided_true_pixels: "sorted_wrt rowmajor_less (strided_true_pixels msk s)"
  unfolding strided_true_pixels_def
  by (intro sorted_wrt_filter sorted_product) simp_all

lemma all_false_px: "all_false msk \<Longrightarrow> r < nrows msk \<Longrightarrow> c < ncols msk \<Longrightarrow> \<not> px msk r c"
  by (simp add: all_false_def list_all_iff)

lemma all_false_no_pixels: "all_false msk \<Longrightarrow> strided_true_pixels msk s = []"
  by (auto simp: strided_true_pixels_def filter_empty_conv dest: all_false_px)

lemma py_range_one_step: "0 < s \<Longrightarrow> n \<le> s \<Longrightarrow> py_range 0 n s = (if n = 0 then [] else [0])"
  by (simp add: py_range.simps [of 0 n s] py_range.simps [of s n s])

lemma strided_true_pixels_large_step:
  assumes "nrows msk < s" "ncols msk < s"
  shows "strided_true_pixels msk s
         = (if 0 < nrows msk \<and> 0 < ncols msk \<and> px msk 0 0 then [(0, 0)] else [])"
proof -
  from assms have s: "0 < s" by simp
  show ?thesis
    using assms by (simp add: strided_true_pixels_range [OF s] py_range_one_step [OF s] pixels_in_def)
qed

subsection \<open>Exporter and pairs loop\<close>

lemma shape_zeros: "shape (zeros R C) = (R, C)"
  by (simp add: shape_def zeros_def)

lemma np_and_mismatch:
  "ncols x \<noteq> ncols y \<Longrightarrow> ncols x \<noteq> 1 \<Longrightarrow> ncols y \<noteq> 1 \<Longrightarrow> np_and x y = Inl ValueError"
  by (simp add: np_and_def broadcast_dim_def split: sum.splits)

lemma compute_changes_mismatch:
  "ncols a \<noteq> ncols b \<Longrightarrow> ncols a \<noteq> 1 \<Longrightarrow> ncols b \<noteq> 1 \<Longrightarrow> compute_changes a b = Inl ValueError"
  using np_and_mismatch [of "np_eq0 a" "np_gt0 b"]
  by (simp add: compute_changes_def np_eq0_def np_gt0_def)

lemma run_pairs_extends: "\<exists>more. fst (run_pairs fmt xy ui loaded ps page) = page @ more"
proof (induction ps arbitrary: page)
  case Nil
  show ?case by simp
next
  case (Cons p ps)
  obtain events err where pp: "process_pair fmt xy ui loaded p = (events, err)"
    by (cases "process_pair fmt xy ui loaded p")
  show ?case
  proof (cases err)
    case None
    from Cons.IH [of "page @ events"] obtain more
      where "fst (run_pairs fmt xy ui loaded ps (page @ events)) = (page @ events) @ more" ..
    then show ?thesis by (simp add: pp None)
  next
    case (Some e)
    then show ?thesis by (simp add: pp)
  qed
qed

section \<open>The claims\<close>

subsection \<open>Change engine\<close>

text \<open>
  C1. For two well-formed masks of equal shape, \<open>compute_changes\<close> returns a pair
  \<open>(new_mask, cleaned_mask)\<close>; at every pixel position, \<open>new_mask\<close> is true exactly
  when the value in \<open>a\<close> is zero and the value in \<open>b\<close> is greater than zero, and
  \<open>cleaned_mask\<close> is true exactly when the value in \<open>a\<close> is greater than zero and the
  value in \<open>b\<close> is zero. For \<open>A = [[0,1],[0,0]]\<close> and \<open>B = [[0,0],[1,1]]\<close> the
  result is \<open>new = [[0,0],[1,1]]\<close> and \<open>cleaned = [[0,1],[0,0]]\<close>.
\<close>

theorem compute_changes_pixelwise:
  assumes "wf_array a" "wf_array b" "shape a = shape b"
  shows "(\<exists>new_mask cleaned_mask.
            compute_changes a b = Inr (new_mask, cleaned_mask)
          \<and> (\<forall>r<nrows a. \<forall>c<ncols a.
                 px new_mask r c = (px a r c = 0 \<and> 0 < px b r c)
               \<and> px cleaned_mask r c = (0 < px a r c \<and> px b r c = 0)))
       \<and> compute_changes \<lparr>nrows = 2, ncols = 2, cells = [[0, 1], [0, 0]]\<rparr>
                          \<lparr>nrows = 2, ncols = 2, cells = [[0, 0], [1, 1]]\<rparr>
          = Inr (\<lparr>nrows = 2, ncols = 2, cells = [[False, False], [True, True]]\<rparr>,
                 \<lparr>nrows = 2, ncols = 2, cells = [[False, True], [False, False]]\<rparr>)"
proof
  from compute_changes_equal_shape [OF assms]
  show "\<exists>new_mask cleaned_mask.
            compute_changes a b = Inr (new_mask, cleaned_mask)
          \<and> (\<forall>r<nrows a. \<forall>c<ncols a.
                 px new_mask r c = (px a r c = 0 \<and> 0 < px b r c)
               \<and> px cleaned_mask r c = (0 < px a r c \<and> px b r c = 0))"
    by blast
next
  show "compute_changes \<lparr>nrows = 2, ncols = 2, cells = [[0, 1], [0, 0]]\<rparr>
                          \<lparr>nrows = 2, ncols = 2, cells = [[0, 0], [1, 1]]\<rparr>
          = Inr (\<lparr>nrows = 2, ncols = 2, cells = [[False, False], [True, True]]\<rparr>,
                 \<lparr>nrows = 2, ncols = 2, cells = [[False, True], [False, False]]\<rparr>)"
    by code_simp
qed

theorem compute_changes_pixelwise_witness:
  "wf_array \<lparr>nrows = 1, ncols = 2, cells = [[0, 3 :: int]]\<rparr>
   \<and> wf_array \<lparr>nrows = 1, ncols = 2, cells = [[7, 0 :: int]]\<rparr>
   \<and> shape \<lparr>nrows = 1, ncols = 2, cells = [[0, 3 :: int]]\<rparr>
       = shape \<lparr>nrows = 1, ncols = 2, cells = [[7, 0 :: int]]\<rparr>
   \<and> compute_changes \<lparr>nrows = 1, ncols = 2, cells = [[0, 3]]\<rparr>
                      \<lparr>nrows = 1, ncols = 2, cells = [[7, 0]]\<rparr>
       = Inr (\<lparr>nrows = 1, ncols = 2, cells = [[True, False]]\<rparr>,
              \<lparr>nrows = 1, ncols = 2, cells = [[False, True]]\<rparr>)"
proof -
  let ?a = "\<lparr>nrows = 1, ncols = 2, cells = [[0, 3 :: int]]\<rparr>"
  let ?b = "\<lparr>nrows = 1, ncols = 2, cells = [[7, 0 :: int]]\<rparr>"
  have h: "wf_array ?a" "wf_array ?b" "shape ?a = shape ?b"
    by (simp_all add: wf_array_def shape_def)
  have ev: "compute_changes ?a ?b
            = Inr (\<lparr>nrows = 1, ncols = 2, cells = [[True, False]]\<rparr>,
                   \<lparr>nrows = 1, ncols = 2, cells = [[False, True]]\<rparr>)"
    by code_simp
  show ?thesis using h ev compute_changes_pixelwise [OF h] by simp
qed

text \<open>
  C10. For two well-formed masks of equal shape, both arrays that \<open>compute_changes\<close>
  returns are boolean arrays of the shape of the inputs (and well formed).
\<close>

theorem compute_changes_shape:
  assumes "wf_array a" "wf_array b" "shape a = shape b"
  shows "\<exists>new_mask cleaned_mask.
           compute_changes a b = Inr (new_mask, cleaned_mask)
         \<and> shape new_mask = shape a \<and> shape cleaned_mask = shape a
         \<and> wf_array new_mask \<and> wf_array cleaned_mask"
  using compute_changes_equal_shape [OF assms] by blast

theorem compute_changes_shape_witness:
  "wf_array \<lparr>nrows = 2, ncols = 1, cells = [[0], [5 :: int]]\<rparr>
   \<and> wf_array \<lparr>nrows = 2, ncols = 1, cells = [[2], [0 :: int]]\<rparr>
   \<and> shape \<lparr>nrows = 2, ncols = 1, cells = [[0], [5 :: int]]\<rparr>
       = shape \<lparr>nrows = 2, ncols = 1, cells = [[2], [0 :: int]]\<rparr>
   \<and> compute_changes \<lparr>nrows = 2, ncols = 1, cells = [[0], [5]]\<rparr>
                      \<lparr>nrows = 2, ncols = 1, cells = [[2], [0]]\<rparr>
       = Inr (\<lparr>nrows = 2, ncols = 1, cells = [[True], [False]]\<rparr>,
              \<lparr>nrows = 2, ncols = 1, cells = [[False], [True]]\<rparr>)
   \<and> shape \<lparr>nrows = 2, ncols = 1, cells = [[True], [False]]\<rparr> = (2, 1)
   \<and> shape \<lparr>nrows = 2, ncols = 1, cells = [[False], [True]]\<rparr> = (2, 1)
   \<and> shape \<lparr>nrows = 2, ncols = 1, cells = [[0], [5 :: int]]\<rparr> = (2, 1)"
proof -
  let ?a = "\<lparr>nrows = 2, ncols = 1, cells = [[0], [5 :: int]]\<rparr>"
  let ?b = "\<lparr>nrows = 2, ncols = 1, cells = [[2], [0 :: int]]\<rparr>"
  have h: "wf_array ?a" "wf_array ?b" "shape ?a = shape ?b"
    by (simp_all add: wf_array_def shape_def)
  have ev: "compute_changes ?a ?b
            = Inr (\<lparr>nrows = 2, ncols = 1, cells = [[True], [False]]\<rparr>,
                   \<lparr>nrows = 2, ncols = 1, cells = [[False], [True]]\<rparr>)"
    by code_simp
  show ?thesis using h ev compute_changes_shape [OF h] by (simp add: shape_def)
qed

text \<open>
  C4. For two well-formed masks of equal shape, the outputs of \<open>compute_changes\<close> are
  mutually exclusive: their pixelwise conjunction \<open>new_mask & cleaned_mask\<close> is the
  all-false array of the inputs' shape.
\<close>

theorem compute_changes_exclusive:
  assumes "wf_array a" "wf_array b" "shape a = shape b"
  shows "\<exists>new_mask cleaned_mask both.
           compute_changes a b = Inr (new_mask, cleaned_mask)
         \<and> np_and new_mask cleaned_mask = Inr both
         \<and> shape both = shape a \<and> all_false both"
  using compute_changes_conjunction [OF assms] by blast

theorem compute_changes_exclusive_witness:
  "wf_array \<lparr>nrows = 2, ncols = 2, cells = [[0, 1], [0, 0 :: int]]\<rparr>
   \<and> wf_array \<lparr>nrows = 2, ncols = 2, cells = [[0, 0], [1, 1 :: int]]\<rparr>
   \<and> shape \<lparr>nrows = 2, ncols = 2, cells = [[0, 1], [0, 0 :: int]]\<rparr>
       = shape \<lparr>nrows = 2, ncols = 2, cells = [[0, 0], [1, 1 :: int]]\<rparr>
   \<and> compute_changes \<lparr>nrows = 2, ncols = 2, cells = [[0, 1], [0, 0]]\<rparr>
                      \<lparr>nrows = 2, ncols = 2, cells = [[0, 0], [1, 1]]\<rparr>
       = Inr (\<lparr>nrows = 2, ncols = 2, cells = [[False, False], [True, True]]\<rparr>,
              \<lparr>nrows = 2, ncols = 2, cells = [[False, True], [False, False]]\<rparr>)
   \<and> np_and \<lparr>nrows = 2, ncols = 2, cells = [[False, False], [True, True]]\<rparr>
             \<lparr>nrows = 2, ncols = 2, cells = [[False, True], [False, False]]\<rparr>
       = Inr \<lparr>nrows = 2, ncols = 2, cells = [[False, False], [False, False]]\<rparr>
   \<and> all_false \<lparr>nrows = 2, ncols = 2, cells = [[False, False], [False, False]]\<rparr>"
proof -
  let ?a = "\<lparr>nrows = 2, ncols = 2, cells = [[0, 1], [0, 0 :: int]]\<rparr>"
  let ?b = "\<lparr>nrows = 2, ncols = 2, cells = [[0, 0], [1, 1 :: int]]\<rparr>"
  have h: "wf_array ?a" "wf_array ?b" "shape ?a = shape ?b"
    by (simp_all add: wf_array_def shape_def)
  have ev: "compute_changes ?a ?b
       = Inr (\<lparr>nrows = 2, ncols = 2, cells = [[False, False], [True, True]]\<rparr>,
              \<lparr>nrows = 2, ncols = 2, cells = [[False, True], [False, False]]\<rparr>)"
    by code_simp
  have ev2: "np_and \<lparr>nrows = 2, ncols = 2, cells = [[False, False], [True, True]]\<rparr>
             \<lparr>nrows = 2, ncols = 2, cells = [[False, True], [False, False]]\<rparr>
       = Inr \<lparr>nrows = 2, ncols = 2, cells = [[False, False], [False, False]]\<rparr>"
    by code_simp
  have ev3: "all_false \<lparr>nrows = 2, ncols = 2, cells = [[False, False], [False, False]]\<rparr>"
    by code_simp
  show ?thesis using h ev ev2 ev3 compute_changes_exclusive [OF h] by simp
qed

text \<open>
  C5. The claim that every pixel falls in exactly one of the four classes (new, cleaned,
  present in both, absent in both) fails when a pixel value is negative: for \<open>a = [[-1]]\<close>
  and \<open>b = [[0]]\<close> the pixel is neither new nor cleaned, it is not present in both and
  it is not absent in both.
\<close>

theorem four_way_counterexample:
  "wf_array \<lparr>nrows = 1, ncols = 1, cells = [[- 1 :: int]]\<rparr>
   \<and> wf_array \<lparr>nrows = 1, ncols = 1, cells = [[0 :: int]]\<rparr>
   \<and> shape \<lparr>nrows = 1, ncols = 1, cells = [[- 1 :: int]]\<rparr>
       = shape \<lparr>nrows = 1, ncols = 1, cells = [[0 :: int]]\<rparr>
   \<and> compute_changes \<lparr>nrows = 1, ncols = 1, cells = [[- 1]]\<rparr>
                      \<lparr>nrows = 1, ncols = 1, cells = [[0]]\<rparr>
       = Inr (\<lparr>nrows = 1, ncols = 1, cells = [[False]]\<rparr>,
              \<lparr>nrows = 1, ncols = 1, cells = [[False]]\<rparr>)
   \<and> \<not> exactly_one
         [px \<lparr>nrows = 1, ncols = 1, cells = [[False]]\<rparr> 0 0,
          px \<lparr>nrows = 1, ncols = 1, cells = [[False]]\<rparr> 0 0,
          present (px \<lparr>nrows = 1, ncols = 1, cells = [[- 1]]\<rparr> 0 0)
            \<and> present (px \<lparr>nrows = 1, ncols = 1, cells = [[0]]\<rparr> 0 0),
          absent (px \<lparr>nrows = 1, ncols = 1, cells = [[- 1]]\<rparr> 0 0)
            \<and> absent (px \<lparr>nrows = 1, ncols = 1, cells = [[0]]\<rparr> 0 0)]"
proof -
  have ev: "compute_changes \<lparr>nrows = 1, ncols = 1, cells = [[- 1]]\<rparr>
                      \<lparr>nrows = 1, ncols = 1, cells = [[0]]\<rparr>
       = Inr (\<lparr>nrows = 1, ncols = 1, cells = [[False]]\<rparr>,
              \<lparr>nrows = 1, ncols = 1, cells = [[False]]\<rparr>)"
    by code_simp
  show ?thesis
    using ev by (simp add: wf_array_def shape_def exactly_one_def px_def present_def absent_def)
qed

text \<open>
  C5, amended. For two well-formed masks of equal shape in which every pixel value is
  exactly zero or positive, every pixel falls in exactly one of the four classes: new,
  cleaned, present in both, or absent in both.
\<close>

theorem four_way_zero_or_positive:
  assumes "wf_array a" "wf_array b" "shape a = shape b" "zero_or_positive a" "zero_or_positive b"
  shows "\<exists>new_mask cleaned_mask.
           compute_changes a b = Inr (new_mask, cleaned_mask)
         \<and> (\<forall>r<nrows a. \<forall>c<ncols a.
               exactly_one
                 [px new_mask r c, px cleaned_mask r c,
                  present (px a r c) \<and> present (px b r c),
                  absent (px a r c) \<and> absent (px b r c)])"
proof -
  from compute_changes_equal_shape [OF assms(1-3)]
  obtain n cl where cc: "compute_changes a b = Inr (n, cl)"
    and pxs: "\<forall>r<nrows a. \<forall>c<ncols a.
                 px n r c = (px a r c = 0 \<and> px b r c > 0)
               \<and> px cl r c = (px a r c > 0 \<and> px b r c = 0)"
    by blast
  from assms(3) have eq: "nrows b = nrows a" "ncols b = ncols a"
    by (simp_all add: shape_def)
  have "exactly_one [px n r c, px cl r c, present (px a r c) \<and> present (px b r c),
                     absent (px a r c) \<and> absent (px b r c)]"
    if rc: "r < nrows a" "c < ncols a" for r c
  proof -
    have "absent (px a r c) \<or> present (px a r c)"
      using px_zero_or_positive [OF assms(1,4) rc] .
    moreover have "absent (px b r c) \<or> present (px b r c)"
      using px_zero_or_positive [OF assms(2,5)] rc by (simp add: eq)
    ultimately show ?thesis
      using pxs rc by (auto simp: exactly_one_four present_def absent_def)
  qed
  with cc show ?thesis by blast
qed

theorem four_way_zero_or_positive_witness:
  "wf_array \<lparr>nrows = 1, ncols = 2, cells = [[0, 3 :: int]]\<rparr>
   \<and> wf_array \<lparr>nrows = 1, ncols = 2, cells = [[7, 2 :: int]]\<rparr>
   \<and> shape \<lparr>nrows = 1, ncols = 2, cells = [[0, 3 :: int]]\<rparr>
       = shape \<lparr>nrows = 1, ncols = 2, cells = [[7, 2 :: int]]\<rparr>
   \<and> zero_or_positive \<lparr>nrows = 1, ncols = 2, cells = [[0, 3]]\<rparr>
   \<and> zero_or_positive \<lparr>nrows = 1, ncols = 2, cells = [[7, 2]]\<rparr>
   \<and> compute_changes \<lparr>nrows = 1, ncols = 2, cells = [[0, 3]]\<rparr>
                      \<lparr>nrows = 1, ncols = 2, cells = [[7, 2]]\<rparr>
       = Inr (\<lparr>nrows = 1, ncols = 2, cells = [[True, False]]\<rparr>,
              \<lparr>nrows = 1, ncols = 2, cells = [[False, False]]\<rparr>)
   \<and> exactly_one [True, False, present 0 \<and> present 7, absent 0 \<and> absent 7]
   \<and> exactly_one [False, False, present 3 \<and> present 2, absent 3 \<and> absent 2]"
proof -
  let ?a = "\<lparr>nrows = 1, ncols = 2, cells = [[0, 3 :: int]]\<rparr>"
  let ?b = "\<lparr>nrows = 1, ncols = 2, cells = [[7, 2 :: int]]\<rparr>"
  have h: "wf_array ?a" "wf_array ?b" "shape ?a = shape ?b" "zero_or_positive ?a" "zero_or_positive ?b"
    by (simp_all add: wf_array_def shape_def zero_or_positive_def absent_def present_def)
  have ev: "compute_changes ?a ?b
            = Inr (\<lparr>nrows = 1, ncols = 2, cells = [[True, False]]\<rparr>,
                   \<lparr>nrows = 1, ncols = 2, cells = [[False, False]]\<rparr>)"
    by code_simp
  show ?thesis using h ev four_way_zero_or_positive [OF h]
    by (simp add: exactly_one_def present_def absent_def)
qed

subsection \<open>Point sampler\<close>

text \<open>
  C2. For a step of at least 1, \<open>mask_to_points\<close> returns a list of points; when
  \<open>max_points\<close> is at least 1 the list has at most \<open>max_points\<close> entries, and when
  the number of true pixels at strided positions (row and column both multiples of the
  step) is at most \<open>max_points\<close>, the list has exactly that many entries. On an all-false
  mask the list is empty, whatever the cap.
\<close>

theorem mask_to_points_count:
  assumes "1 \<le> step"
  shows "\<exists>pts. mask_to_points xy msk t step max_points = Inr pts
           \<and> (1 \<le> max_points \<longrightarrow>
                int (length pts) \<le> max_points
              \<and> (int (strided_true_count msk (nat step)) \<le> max_points \<longrightarrow>
                   length pts = strided_true_count msk (nat step)))
           \<and> (all_false msk \<longrightarrow> pts = [])"
proof -
  from assms have "0 < step" by simp
  then show ?thesis
    by (auto simp: mask_to_points_eq strided_true_count_def all_false_no_pixels)
qed

theorem mask_to_points_count_witness:
  "(1 :: int) \<le> 2 \<and> (1 :: int) \<le> 3
   \<and> mask_to_points (\<lambda>t r c. (int c, int r))
        \<lparr>nrows = 4, ncols = 4, cells = replicate 4 (replicate 4 True)\<rparr> () 2 3
       = Inr [(0, 0), (0, 2), (2, 0)]
   \<and> strided_true_count \<lparr>nrows = 4, ncols = 4, cells = replicate 4 (replicate 4 True)\<rparr> 2 = 4
   \<and> mask_to_points (\<lambda>t r c. (int c, int r))
        \<lparr>nrows = 4, ncols = 4, cells = replicate 4 (replicate 4 True)\<rparr> () 2 4
       = Inr [(0, 0), (0, 2), (2, 0), (2, 2)]
   \<and> all_false \<lparr>nrows = 2, ncols = 3, cells = replicate 2 (replicate 3 False)\<rparr>
   \<and> mask_to_points (\<lambda>t r c. (int c, int r))
        \<lparr>nrows = 2, ncols = 3, cells = replicate 2 (replicate 3 False)\<rparr> () 2 3
       = Inr []"
proof -
  let ?xy = "\<lambda>(t :: unit) r c. (int c, int r)"
  let ?m = "\<lparr>nrows = 4, ncols = 4, cells = replicate 4 (replicate 4 True)\<rparr>"
  let ?z = "\<lparr>nrows = 2, ncols = 3, cells = replicate 2 (replicate 3 False)\<rparr>"
  have ev1: "mask_to_points ?xy ?m () 2 3 = Inr [(0, 0), (0, 2), (2, 0)]" by code_simp
  have ev2: "mask_to_points ?xy ?m () 2 4 = Inr [(0, 0), (0, 2), (2, 0), (2, 2)]" by code_simp
  have ev3: "strided_true_count ?m 2 = 4" by code_simp
  have ev4: "all_false ?z" by code_simp
  have ev5: "mask_to_points ?xy ?z () 2 3 = Inr []" by code_simp
  have h: "(1 :: int) \<le> 2" by simp
  show ?thesis
    using ev1 ev2 ev3 ev4 ev5
      mask_to_points_count [OF h, of ?xy ?m "()" 3]
      mask_to_points_count [OF h, of ?xy ?m "()" 4]
      mask_to_points_count [OF h, of ?xy ?z "()" 3]
    by simp
qed

text \<open>
  C3. For a step of at least 1 and any cap, the points that \<open>mask_to_points\<close> returns are
  the images under the transform of a list of pixels that is strictly increasing in
  row-major order, and that list is the prefix (of length \<open>max_points\<close>, or 1 when
  \<open>max_points\<close> is below 1) of the true strided pixels in row-major order. For a 4 by 4
  all-true mask, step 2 and cap 3, the result is the three points of the pixels
  \<open>(0,0)\<close>, \<open>(0,2)\<close>, \<open>(2,0)\<close>.
\<close>

theorem mask_to_points_row_major:
  assumes "1 \<le> step"
  shows "(\<exists>ps. mask_to_points xy msk t step max_points = Inr (map (to_point xy t) ps)
            \<and> ps = take (nat (max 1 max_points)) (strided_true_pixels msk (nat step))
            \<and> sorted_wrt rowmajor_less ps)
       \<and> mask_to_points xy \<lparr>nrows = 4, ncols = 4, cells = replicate 4 (replicate 4 True)\<rparr> t 2 3
          = Inr [to_point xy t (0, 0), to_point xy t (0, 2), to_point xy t (2, 0)]"
proof
  from assms have "0 < step" by simp
  then show "\<exists>ps. mask_to_points xy msk t step max_points = Inr (map (to_point xy t) ps)
            \<and> ps = take (nat (max 1 max_points)) (strided_true_pixels msk (nat step))
            \<and> sorted_wrt rowmajor_less ps"
    by (simp add: mask_to_points_eq sorted_strided_true_pixels)
next
  have "strided_true_pixels \<lparr>nrows = 4, ncols = 4, cells = replicate 4 (replicate 4 True)\<rparr> (nat 2)
        = [(0, 0), (0, 2), (2, 0), (2, 2)]"
    by code_simp
  then show "mask_to_points xy \<lparr>nrows = 4, ncols = 4, cells = replicate 4 (replicate 4 True)\<rparr> t 2 3
          = Inr [to_point xy t (0, 0), to_point xy t (0, 2), to_point xy t (2, 0)]"
    by (simp add: mask_to_points_eq)
qed

theorem mask_to_points_row_major_witness:
  "(1 :: int) \<le> 1
   \<and> mask_to_points (\<lambda>t r c. (int c, int r))
        \<lparr>nrows = 2, ncols = 3, cells = [[False, True, True], [True, False, True]]\<rparr> () 1 3
       = Inr [(0, 1), (0, 2), (1, 0)]
   \<and> strided_true_pixels
        \<lparr>nrows = 2, ncols = 3, cells = [[False, True, True], [True, False, True]]\<rparr> 1
       = [(0, 1), (0, 2), (1, 0), (1, 2)]
   \<and> sorted_wrt rowmajor_less [(0, 1), (0, 2), (1, 0)]"
proof -
  let ?xy = "\<lambda>(t :: unit) r c. (int c, int r)"
  let ?m = "\<lparr>nrows = 2, ncols = 3, cells = [[False, True, True], [True, False, True]]\<rparr>"
  have ev1: "mask_to_points ?xy ?m () 1 3 = Inr [(0, 1), (0, 2), (1, 0)]" by code_simp
  have ev2: "strided_true_pixels ?m 1 = [(0, 1), (0, 2), (1, 0), (1, 2)]" by code_simp
  have ev3: "sorted_wrt rowmajor_less [(0, 1), (0, 2), (1, 0 :: nat)]" by code_simp
  have h: "(1 :: int) \<le> 1" by simp
  show ?thesis
    using ev1 ev2 ev3 mask_to_points_row_major [OF h, of ?xy ?m "()" 3] by simp
qed

text \<open>
  C7. The test of the strided row slice has no effect on the result: the sampler without
  it returns the same value (the same points in the same order, or the same error) for
  every mask, transform, step and cap.
\<close>

theorem precheck_no_effect:
  "mask_to_points xy msk t step max_points = mask_to_points_nocheck xy msk t step max_points"
  by (simp add: mask_to_points_def mask_to_points_nocheck_def row_loop_nocheck)

theorem precheck_no_effect_witness:
  "mask_to_points (\<lambda>t r c. (int c, int r))
     \<lparr>nrows = 3, ncols = 2, cells = [[True, False], [False, False], [True, True]]\<rparr> () 1 2
   = Inr [(0, 0), (2, 0)]
   \<and> mask_to_points_nocheck (\<lambda>t r c. (int c, int r))
     \<lparr>nrows = 3, ncols = 2, cells = [[True, False], [False, False], [True, True]]\<rparr> () 1 2
   = Inr [(0, 0), (2, 0)]"
proof -
  let ?xy = "\<lambda>(t :: unit) r c. (int c, int r)"
  let ?m = "\<lparr>nrows = 3, ncols = 2, cells = [[True, False], [False, False], [True, True]]\<rparr>"
  have ev: "mask_to_points ?xy ?m () 1 2 = Inr [(0, 0), (2, 0)]" by code_simp
  show ?thesis using ev precheck_no_effect [of ?xy ?m "()" 1 2] by simp
qed

text \<open>
  C9. When the step is larger than both dimensions of the mask, \<open>mask_to_points\<close>
  returns the single point of pixel \<open>(0,0)\<close> if the mask has that pixel and it is true,
  and the empty list otherwise.
\<close>

theorem mask_to_points_large_step:
  assumes "int (nrows msk) < step" "int (ncols msk) < step"
  shows "mask_to_points xy msk t step max_points
         = Inr (if 0 < nrows msk \<and> 0 < ncols msk \<and> px msk 0 0
                then [to_point xy t (0, 0)] else [])"
proof -
  from assms have pos: "0 < step" and big: "nrows msk < nat step" "ncols msk < nat step"
    by simp_all
  show ?thesis
    by (simp add: mask_to_points_eq [OF pos] strided_true_pixels_large_step [OF big])
qed

theorem mask_to_points_large_step_witness:
  "int (nrows \<lparr>nrows = 2, ncols = 3, cells = [[True, True, True], [True, True, True]]\<rparr>) < 4
   \<and> int (ncols \<lparr>nrows = 2, ncols = 3, cells = [[True, True, True], [True, True, True]]\<rparr>) < 4
   \<and> mask_to_points (\<lambda>t r c. (int c, int r))
        \<lparr>nrows = 2, ncols = 3, cells = [[True, True, True], [True, True, True]]\<rparr> () 4 10
       = Inr [(0, 0)]
   \<and> mask_to_points (\<lambda>t r c. (int c, int r))
        \<lparr>nrows = 2, ncols = 3, cells = [[False, True, True], [True, True, True]]\<rparr> () 4 10
       = Inr []"
proof -
  let ?xy = "\<lambda>(t :: unit) r c. (int c, int r)"
  let ?m = "\<lparr>nrows = 2, ncols = 3, cells = [[True, True, True], [True, True, True]]\<rparr>"
  let ?m' = "\<lparr>nrows = 2, ncols = 3, cells = [[False, True, True], [True, True, True]]\<rparr>"
  have h: "int (nrows ?m) < 4" "int (ncols ?m) < 4" by simp_all
  have h': "int (nrows ?m') < 4" "int (ncols ?m') < 4" by simp_all
  show ?thesis
    using h mask_to_points_large_step [OF h, of ?xy "()" 10]
      mask_to_points_large_step [OF h', of ?xy "()" 10]
    by (simp add: px_def to_point_def)
qed

subsection \<open>Tabular exporter\<close>

text \<open>
  C8. \<open>points_to_dataframe\<close> on the empty list returns the table with the columns
  \<open>latitude\<close> and \<open>longitude\<close> and no rows; its serialisation is the header line
  \<open>latitude,longitude\<close> and nothing else.
\<close>

theorem empty_table:
  "points_to_dataframe ([] :: ('c \<times> 'c) list) = [(''latitude'', []), (''longitude'', [])]
   \<and> df_nrows (points_to_dataframe ([] :: ('c \<times> 'c) list)) = 0
   \<and> df_columns (points_to_dataframe ([] :: ('c \<times> 'c) list)) = [''latitude'', ''longitude'']
   \<and> csv_lines fmt (points_to_dataframe ([] :: ('c \<times> 'c) list)) = [''latitude,longitude'']
   \<and> to_csv fmt (points_to_dataframe ([] :: ('c \<times> 'c) list)) = ''latitude,longitude'' @ [CHR 0x0A]"
  by (simp add: points_to_dataframe_def df_nrows_def df_columns_def csv_lines_def to_csv_def)

theorem empty_table_witness:
  "to_csv (\<lambda>v :: int. ''0'') (points_to_dataframe []) = ''latitude,longitude'' @ [CHR 0x0A]
   \<and> df_nrows (points_to_dataframe ([] :: (int \<times> int) list)) = 0"
  using empty_table [of "\<lambda>v :: int. ''0''"]
  by (simp add: points_to_dataframe_def df_nrows_def df_columns_def csv_lines_def to_csv_def)

subsection \<open>Shape mismatch\<close>

text \<open>
  C6. When the two masks of a pair differ in shape, the iteration puts on the page exactly
  one error event that carries the title and both shapes, computes nothing else for the
  pair, and the loop goes on with the remaining pairs; the error stays on the final page.
\<close>

theorem shape_mismatch_skipped:
  assumes "loaded a_key = Some ea" "loaded b_key = Some eb" "shape (arr ea) \<noteq> shape (arr eb)"
  shows "process_pair fmt xy ui loaded (title, a_key, b_key)
           = ([StError title (shape (arr ea)) (shape (arr eb))], None)
       \<and> run_pairs fmt xy ui loaded ((title, a_key, b_key) # rest) page
           = run_pairs fmt xy ui loaded rest
               (page @ [StError title (shape (arr ea)) (shape (arr eb))])
       \<and> (\<exists>more. fst (run_pairs fmt xy ui loaded ((title, a_key, b_key) # rest) page)
                   = page @ [StError title (shape (arr ea)) (shape (arr eb))] @ more)"
proof -
  have pp: "process_pair fmt xy ui loaded (title, a_key, b_key)
           = ([StError title (shape (arr ea)) (shape (arr eb))], None)"
    using assms by (simp add: process_pair_def)
  have step: "run_pairs fmt xy ui loaded ((title, a_key, b_key) # rest) page
           = run_pairs fmt xy ui loaded rest
               (page @ [StError title (shape (arr ea)) (shape (arr eb))])"
    by (simp add: pp)
  have "\<exists>more. fst (run_pairs fmt xy ui loaded rest
                       (page @ [StError title (shape (arr ea)) (shape (arr eb))]))
                   = (page @ [StError title (shape (arr ea)) (shape (arr eb))]) @ more"
    by (rule run_pairs_extends)
  then have "\<exists>more. fst (run_pairs fmt xy ui loaded ((title, a_key, b_key) # rest) page)
                   = page @ [StError title (shape (arr ea)) (shape (arr eb))] @ more"
    unfolding step by simp
  with pp step show ?thesis by blast
qed

theorem shape_mismatch_skipped_witness:
  "ex_loaded ''5y'' = Some \<lparr>arr = zeros 100 100, transform = (), bounds = (), name = ''a.tif''\<rparr>
   \<and> ex_loaded ''2y'' = Some \<lparr>arr = zeros 100 101, transform = (), bounds = (), name = ''b.tif''\<rparr>
   \<and> shape (zeros 100 100) \<noteq> shape (zeros 100 101)
   \<and> compute_changes (zeros 100 100) (zeros 100 101) = Inl ValueError
   \<and> process_pair (\<lambda>v :: int. ''0'') (\<lambda>t r c. (int c, int r))
        (\<lambda>title. \<lparr>ui_step = 8, ui_max_pts = 50000, ui_which = NEW\<rparr>) ex_loaded
        (''5y '' @ arrow @ '' 2y'', ''5y'', ''2y'')
       = ([StError (''5y '' @ arrow @ '' 2y'') (100, 100) (100, 101)], None)
   \<and> pairs_of ex_small
       = [(''5y '' @ arrow @ '' 2y'', ''5y'', ''2y''), (''2y '' @ arrow @ '' 3m'', ''2y'', ''3m'')]
   \<and> hd (fst (run_pairs (\<lambda>v :: int. ''0'') (\<lambda>t r c. (int c, int r))
        (\<lambda>title. \<lparr>ui_step = 4, ui_max_pts = 1000, ui_which = NEW\<rparr>) ex_small
        (pairs_of ex_small) []))
       = StError (''5y '' @ arrow @ '' 2y'') (2, 2) (2, 3)
   \<and> length (fst (run_pairs (\<lambda>v :: int. ''0'') (\<lambda>t r c. (int c, int r))
        (\<lambda>title. \<lparr>ui_step = 4, ui_max_pts = 1000, ui_which = NEW\<rparr>) ex_small
        (pairs_of ex_small) [])) = 6
   \<and> snd (run_pairs (\<lambda>v :: int. ''0'') (\<lambda>t r c. (int c, int r))
        (\<lambda>title. \<lparr>ui_step = 4, ui_max_pts = 1000, ui_which = NEW\<rparr>) ex_small
        (pairs_of ex_small) []) = None"
proof -
  let ?fmt = "\<lambda>v :: int. ''0''"
  let ?xy = "\<lambda>(t :: unit) r c. (int c, int r)"
  let ?ea = "\<lparr>arr = zeros 100 100, transform = (), bounds = (), name = ''a.tif''\<rparr>"
  let ?eb = "\<lparr>arr = zeros 100 101, transform = (), bounds = (), name = ''b.tif''\<rparr>"
  let ?run = "run_pairs ?fmt ?xy (\<lambda>title. \<lparr>ui_step = 4, ui_max_pts = 1000, ui_which = NEW\<rparr>)
                ex_small (pairs_of ex_small) []"
  have h: "ex_loaded ''5y'' = Some ?ea" "ex_loaded ''2y'' = Some ?eb"
    "shape (arr ?ea) \<noteq> shape (arr ?eb)"
    by (simp_all add: ex_loaded_def shape_zeros)
  have cc: "compute_changes (zeros 100 100) (zeros 100 101) = Inl ValueError"
    by (rule compute_changes_mismatch) (simp_all add: zeros_def)
  have ps: "pairs_of ex_small
       = [(''5y '' @ arrow @ '' 2y'', ''5y'', ''2y''), (''2y '' @ arrow @ '' 3m'', ''2y'', ''3m'')]"
    by code_simp
  have r1: "hd (fst ?run) = StError (''5y '' @ arrow @ '' 2y'') (2, 2) (2, 3)"
    by code_simp
  have r2: "length (fst ?run) = 6" by code_simp
  have r3: "snd ?run = None" by code_simp
  show ?thesis
    using h cc ps r1 r2 r3
      shape_mismatch_skipped [OF h, of ?fmt ?xy
        "\<lambda>title. \<lparr>ui_step = 8, ui_max_pts = 50000, ui_which = NEW\<rparr>"
        "''5y '' @ arrow @ '' 2y''" "[]" "[]"]
    by (simp add: shape_zeros)
qed

end
